theory Spec2Isabelle
  imports Complex_Main
begin

section \<open>Python values used by the two front-ends\<close>

text \<open>
  The repository is two thin layers around an external detector: the Flask service
  \<^verbatim>\<open>app.py\<close> and the Streamlit form \<^verbatim>\<open>app_streamlit.py\<close>. Python floats are
  modelled as \<^typ>\<open>real\<close> (exact arithmetic, no NaN or infinity), Python integers as
  \<^typ>\<open>int\<close>, and a raised \<^verbatim>\<open>Exception\<close> as a value of \<open>exn\<close>; the handler of
  \<^verbatim>\<open>predict\<close> only ever reads \<^verbatim>\<open>str(e)\<close>.
\<close>

datatype exn =
    NameError string
  | ValueError string
  | IndexError string
  | ZeroDivisionError string
  | LibraryError string

fun str_exn :: "exn \<Rightarrow> string" where
  "str_exn (NameError m) = m"
| "str_exn (ValueError m) = m"
| "str_exn (IndexError m) = m"
| "str_exn (ZeroDivisionError m) = m"
| "str_exn (LibraryError m) = m"

text \<open>The dictionaries handed to \<^verbatim>\<open>jsonify\<close>, in the order the source writes their keys.\<close>

datatype json =
    JInt int
  | JFloat real
  | JBool bool
  | JStr string
  | JArr "json list"
  | JObj "(string \<times> json) list"

fun json_get :: "json \<Rightarrow> string \<Rightarrow> json option" where
  "json_get (JObj kvs) k = map_of kvs k"
| "json_get _ k = None"


text \<open>\<^verbatim>\<open>str(n)\<close> of an integer, as the f-strings \<^verbatim>\<open>f"Class {cls}"\<close> print it.\<close>

definition digit_char :: "nat \<Rightarrow> char" where
  "digit_char d = ''0123456789'' ! d"

fun str_nat :: "nat \<Rightarrow> string" where
  "str_nat n = (if n < 10 then [digit_char n] else str_nat (n div 10) @ [digit_char (n mod 10)])"

declare str_nat.simps [simp del]

definition str_int :: "int \<Rightarrow> string" where
  "str_int i = (if i < 0 then CHR ''-'' # str_nat (nat (- i)) else str_nat (nat i))"

text \<open>\<^verbatim>\<open>int(x)\<close> of a float truncates towards zero.\<close>

definition py_int :: "real \<Rightarrow> int" where
  "py_int x = (if x < 0 then \<lceil>x\<rceil> else \<lfloor>x\<rfloor>)"

text \<open>\<^verbatim>\<open>xs[i]\<close> on a Python list raises \<^verbatim>\<open>IndexError\<close> out of range.\<close>

definition py_index :: "'a list \<Rightarrow> nat \<Rightarrow> exn + 'a" where
  "py_index xs i = (if i < length xs then Inr (xs ! i) else Inl (IndexError ''list index out of range''))"

section \<open>The external detector\<close>

text \<open>
  What the code reads from the objects \<^verbatim>\<open>model.predict\<close> returns: each result has
  \<^verbatim>\<open>boxes\<close> and the dictionary \<^verbatim>\<open>names\<close>; each box has the one-element tensors
  \<^verbatim>\<open>cls\<close> and \<^verbatim>\<open>conf\<close> and the tensor \<^verbatim>\<open>xyxy\<close> of coordinate rows.
\<close>

record box =
  cls :: real
  conf :: real
  xyxy :: "real list list"

record result =
  boxes :: "box list"
  names :: "int \<Rightarrow> string option"

text \<open>
  The loaded handle is its \<^verbatim>\<open>predict(image_np, conf=...)\<close> method: it returns the
  results or raises.
\<close>

type_synonym 'arr yolo = "'arr \<Rightarrow> real \<Rightarrow> exn + result list"

text \<open>
  The global \<^verbatim>\<open>model\<close>: unbound until \<^verbatim>\<open>load_model\<close> has assigned it, then
  \<^verbatim>\<open>None\<close> or a handle.
\<close>

datatype 'h model_var = Unbound | Bound "'h option"

text \<open>The library calls of the source, taken as parameters.\<close>

record ('img, 'arr) env =
  path_exists :: "string \<Rightarrow> bool"
  YOLO :: "string \<Rightarrow> exn + 'arr yolo"
  float_str :: "string \<Rightarrow> exn + real"
  Image_open :: "nat list \<Rightarrow> exn + 'img"
  np_array :: "'img \<Rightarrow> exn + 'arr"

record request =
  files :: "string \<Rightarrow> nat list option"
  form :: "string \<Rightarrow> string option"

type_synonym response = "json \<times> nat"

section \<open>app.py\<close>

definition MODEL_PATH :: string where
  "MODEL_PATH = ''best.pt''"

text \<open>
  \<^verbatim>\<open>load_model\<close> assigns the global; when \<^verbatim>\<open>YOLO(MODEL_PATH)\<close> raises, the
  exception leaves the function and the global keeps its former state.
\<close>

definition load_model :: "('img, 'arr) env \<Rightarrow> 'arr yolo model_var \<Rightarrow> exn option \<times> 'arr yolo model_var" where
  "load_model e mv =
     (if path_exists e MODEL_PATH then
        (case YOLO e MODEL_PATH of
           Inl ex \<Rightarrow> (Some ex, mv)
         | Inr m \<Rightarrow> (None, Bound (Some m)))
      else (None, Bound None))"

text \<open>\<^verbatim>\<open>health\<close> has no handler of its own: reading an unbound global raises.\<close>

definition health :: "'h model_var \<Rightarrow> exn + response" where
  "health mv =
     (case mv of
        Unbound \<Rightarrow> Inl (NameError ''name 'model' is not defined'')
      | Bound m \<Rightarrow>
          Inr (JObj [(''status'', JStr ''ok''),
                     (''model_loaded'', JBool (m \<noteq> None)),
                     (''model_path'', JStr MODEL_PATH)], 200))"

text \<open>\<^verbatim>\<open>d.get(k, default)\<close> and \<^verbatim>\<open>box.xyxy[0].tolist()\<close>.\<close>

definition dict_get :: "('k \<Rightarrow> 'v option) \<Rightarrow> 'k \<Rightarrow> 'v \<Rightarrow> 'v" where
  "dict_get d k dflt = (case d k of Some v \<Rightarrow> v | None \<Rightarrow> dflt)"

definition xyxy0_tolist :: "box \<Rightarrow> exn + real list" where
  "xyxy0_tolist b =
     (case xyxy b of
        [] \<Rightarrow> Inl (IndexError ''index 0 is out of bounds for dimension 0 with size 0'')
      | row # _ \<Rightarrow> Inr row)"

text \<open>The body of the inner loop: one detection dictionary for one box.\<close>

definition box_dict :: "(int \<Rightarrow> string option) \<Rightarrow> box \<Rightarrow> exn + json" where
  "box_dict nm b =
     (let c = py_int (cls b);
          conf_score = conf b;
          class_name = dict_get nm c (''Class '' @ str_int c)
      in case xyxy0_tolist b of
           Inl ex \<Rightarrow> Inl ex
         | Inr bbox \<Rightarrow>
        (case py_index bbox 0 of Inl ex \<Rightarrow> Inl ex | Inr x_min \<Rightarrow>
        (case py_index bbox 1 of Inl ex \<Rightarrow> Inl ex | Inr y_min \<Rightarrow>
        (case py_index bbox 2 of Inl ex \<Rightarrow> Inl ex | Inr x_max \<Rightarrow>
        (case py_index bbox 3 of Inl ex \<Rightarrow> Inl ex | Inr y_max \<Rightarrow>
           Inr (JObj [(''class_id'', JInt c),
                      (''class_name'', JStr class_name),
                      (''confidence'', JFloat conf_score),
                      (''bbox'', JObj [(''x_min'', JFloat x_min),
                                       (''y_min'', JFloat y_min),
                                       (''x_max'', JFloat x_max),
                                       (''y_max'', JFloat y_max)])]))))))"

text \<open>The two loops append to the list \<^verbatim>\<open>detections\<close>; an exception ends both.\<close>

fun boxes_loop :: "(int \<Rightarrow> string option) \<Rightarrow> box list \<Rightarrow> json list \<Rightarrow> exn + json list" where
  "boxes_loop nm [] detections = Inr detections"
| "boxes_loop nm (b # bs) detections =
     (case box_dict nm b of
        Inl ex \<Rightarrow> Inl ex
      | Inr d \<Rightarrow> boxes_loop nm bs (detections @ [d]))"

fun results_loop :: "result list \<Rightarrow> json list \<Rightarrow> exn + json list" where
  "results_loop [] detections = Inr detections"
| "results_loop (r # rs) detections =
     (case boxes_loop (names r) (boxes r) detections of
        Inl ex \<Rightarrow> Inl ex
      | Inr ds \<Rightarrow> results_loop rs ds)"

text \<open>\<^verbatim>\<open>float(request.form.get('conf', 0.5))\<close>: the default is already a float.\<close>

definition form_conf :: "('img, 'arr) env \<Rightarrow> request \<Rightarrow> exn + real" where
  "form_conf e req = (case form req ''conf'' of None \<Rightarrow> Inr 0.5 | Some s \<Rightarrow> float_str e s)"

text \<open>
  The \<^verbatim>\<open>try\<close> block of \<^verbatim>\<open>predict\<close>. The first component lists the calls of
  \<^verbatim>\<open>model.predict\<close> made, with their arguments; the second is the returned response
  or the exception raised.
\<close>

definition predict_try ::
  "('img, 'arr) env \<Rightarrow> 'arr yolo model_var \<Rightarrow> request \<Rightarrow> ('arr \<times> real) list \<times> (exn + response)" where
  "predict_try e mv req =
     (case mv of
        Unbound \<Rightarrow> ([], Inl (NameError ''name 'model' is not defined''))
      | Bound None \<Rightarrow> ([], Inr (JObj [(''error'', JStr ''Model not loaded'')], 500))
      | Bound (Some m) \<Rightarrow>
     (case files req ''file'' of
        None \<Rightarrow> ([], Inr (JObj [(''error'', JStr ''No file provided'')], 400))
      | Some image_bytes \<Rightarrow>
     (case form_conf e req of
        Inl ex \<Rightarrow> ([], Inl ex)
      | Inr confv \<Rightarrow>
     (case Image_open e image_bytes of
        Inl ex \<Rightarrow> ([], Inl ex)
      | Inr img \<Rightarrow>
     (case np_array e img of
        Inl ex \<Rightarrow> ([], Inl ex)
      | Inr image_np \<Rightarrow>
        ([(image_np, confv)],
         (case m image_np confv of
            Inl ex \<Rightarrow> Inl ex
          | Inr results \<Rightarrow>
         (case results_loop results [] of
            Inl ex \<Rightarrow> Inl ex
          | Inr detections \<Rightarrow>
              Inr (JObj [(''detections'', JArr detections),
                         (''count'', JInt (int (length detections))),
                         (''model'', JStr ''Vehicle Detection Model'')], 200)))))))))"

text \<open>\<^verbatim>\<open>except Exception as e: return jsonify({'error': str(e)}), 500\<close>\<close>

definition predict ::
  "('img, 'arr) env \<Rightarrow> 'arr yolo model_var \<Rightarrow> request \<Rightarrow> ('arr \<times> real) list \<times> response" where
  "predict e mv req =
     (case predict_try e mv req of
        (calls, Inl ex) \<Rightarrow> (calls, (JObj [(''error'', JStr (str_exn ex))], 500))
      | (calls, Inr resp) \<Rightarrow> (calls, resp))"

section \<open>app_streamlit.py\<close>

text \<open>
  The format specifications of the table. \<^verbatim>\<open>f"{x:.0f}"\<close> and \<^verbatim>\<open>f"{x:.2%}"\<close> round to the
  nearest value that can be printed, a tie to the even one; the percentage is the value
  times 100 with two decimals.
\<close>

definition round_half_even :: "real \<Rightarrow> int" where
  "round_half_even x =
     (let n = \<lfloor>x\<rfloor>; d = x - of_int n
      in if d < 1 / 2 then n else if 1 / 2 < d then n + 1 else if even n then n else n + 1)"

definition sign_str :: "real \<Rightarrow> string" where
  "sign_str x = (if x < 0 then ''-'' else [])"

definition fmt_0f :: "real \<Rightarrow> string" where
  "fmt_0f x = sign_str x @ str_nat (nat (round_half_even \<bar>x\<bar>))"

definition two_digits :: "nat \<Rightarrow> string" where
  "two_digits n = [digit_char (n div 10 mod 10), digit_char (n mod 10)]"

definition fmt_pct2 :: "real \<Rightarrow> string" where
  "fmt_pct2 x =
     (let h = nat (round_half_even (\<bar>x\<bar> * 100 * 100))
      in sign_str x @ str_nat (h div 100) @ ''.'' @ two_digits (h mod 100) @ ''%'')"

text \<open>\<^verbatim>\<open>s.strip('%')\<close> removes the percent signs at both ends.\<close>

definition strip_char :: "char \<Rightarrow> string \<Rightarrow> string" where
  "strip_char c s = rev (dropWhile (\<lambda>x. x = c) (rev (dropWhile (\<lambda>x. x = c) s)))"

text \<open>
  \<^verbatim>\<open>float(s)\<close> on the strings this script gives it: an optional minus sign, digits, and an
  optional point followed by digits. Anything else is a \<^verbatim>\<open>ValueError\<close> here.
\<close>

definition digit_val :: "char \<Rightarrow> nat option" where
  "digit_val c = (if c \<in> set ''0123456789'' then Some (of_char c - 48) else None)"

fun digits_val :: "string \<Rightarrow> nat \<Rightarrow> nat option" where
  "digits_val [] acc = Some acc"
| "digits_val (c # cs) acc =
     (case digit_val c of None \<Rightarrow> None | Some d \<Rightarrow> digits_val cs (10 * acc + d))"

definition float_decimal :: "string \<Rightarrow> exn + real" where
  "float_decimal s =
     (let neg = (s \<noteq> [] \<and> hd s = CHR ''-'');
          body = (if neg then tl s else s);
          ip = takeWhile (\<lambda>c. c \<noteq> CHR ''.'') body;
          fp = drop 1 (dropWhile (\<lambda>c. c \<noteq> CHR ''.'') body)
      in if ip = [] \<and> fp = [] then
           Inl (ValueError (''could not convert string to float: '' @ [CHR 0x27] @ s @ [CHR 0x27]))
         else
           (case (digits_val ip 0, digits_val fp 0) of
              (Some a, Some b) \<Rightarrow>
                Inr ((if neg then - 1 else 1) * (real a + real b / 10 ^ length fp))
            | _ \<Rightarrow>
                Inl (ValueError (''could not convert string to float: '' @ [CHR 0x27] @ s @ [CHR 0x27]))))"

text \<open>One row of the table: the dictionary appended for one box.\<close>

record row =
  Classe :: string
  Confiance :: string
  X_min :: string
  Y_min :: string
  X_max :: string
  Y_max :: string

definition box_row :: "(int \<Rightarrow> string option) \<Rightarrow> box \<Rightarrow> exn + row" where
  "box_row nm b =
     (let c = py_int (cls b);
          confv = conf b;
          class_name = dict_get nm c (''Classe '' @ str_int c)
      in case xyxy0_tolist b of
           Inl ex \<Rightarrow> Inl ex
         | Inr bbox \<Rightarrow>
        (case py_index bbox 0 of Inl ex \<Rightarrow> Inl ex | Inr x0 \<Rightarrow>
        (case py_index bbox 1 of Inl ex \<Rightarrow> Inl ex | Inr y0 \<Rightarrow>
        (case py_index bbox 2 of Inl ex \<Rightarrow> Inl ex | Inr x1 \<Rightarrow>
        (case py_index bbox 3 of Inl ex \<Rightarrow> Inl ex | Inr y1 \<Rightarrow>
           Inr \<lparr>Classe = class_name,
                Confiance = fmt_pct2 confv,
                X_min = fmt_0f x0,
                Y_min = fmt_0f y0,
                X_max = fmt_0f x1,
                Y_max = fmt_0f y1\<rparr>)))))"

fun rows_loop :: "(int \<Rightarrow> string option) \<Rightarrow> box list \<Rightarrow> row list \<Rightarrow> exn + row list" where
  "rows_loop nm [] detections = Inr detections"
| "rows_loop nm (b # bs) detections =
     (case box_row nm b of
        Inl ex \<Rightarrow> Inl ex
      | Inr d \<Rightarrow> rows_loop nm bs (detections @ [d]))"

text \<open>
  \<^verbatim>\<open>df['Classe'].value_counts()\<close>: one entry for each distinct value, with the number of
  rows that have it (pandas orders the entries by count; only their number is used).
\<close>

definition value_counts :: "'a list \<Rightarrow> ('a \<times> nat) list" where
  "value_counts xs = map (\<lambda>x. (x, count_list xs x)) (remdups xs)"

text \<open>\<^verbatim>\<open>[float(d['Confiance'].strip('%'))/100 for d in detections]\<close>\<close>

fun confiance_values :: "row list \<Rightarrow> exn + real list" where
  "confiance_values [] = Inr []"
| "confiance_values (d # ds) =
     (case float_decimal (strip_char CHR ''%'' (Confiance d)) of
        Inl ex \<Rightarrow> Inl ex
      | Inr v \<Rightarrow>
     (case confiance_values ds of
        Inl ex \<Rightarrow> Inl ex
      | Inr vs \<Rightarrow> Inr (v / 100 # vs)))"

text \<open>
  What the script shows for one result: the warning when there is no box, otherwise the
  table, the class counts of the bar chart and the three metrics.
\<close>

record metrics =
  total_detections :: nat
  avg_conf :: real
  confiance_moyenne :: string
  classes_differentes :: nat

datatype view =
    Aucun_objet
  | Detections "row list" "(string \<times> nat) list" metrics

definition render_result :: "result \<Rightarrow> exn + view" where
  "render_result r =
     (let num_detections = length (boxes r)
      in if num_detections > 0 then
           (case rows_loop (names r) (boxes r) [] of
              Inl ex \<Rightarrow> Inl ex
            | Inr detections \<Rightarrow>
                (let class_counts = value_counts (map Classe detections)
                 in case confiance_values detections of
                      Inl ex \<Rightarrow> Inl ex
                    | Inr vs \<Rightarrow>
                        if length detections = 0 then Inl (ZeroDivisionError ''division by zero'')
                        else
                          (let avg = sum_list vs / real (length detections)
                           in Inr (Detections detections class_counts
                                     \<lparr>total_detections = num_detections,
                                      avg_conf = avg,
                                      confiance_moyenne = fmt_pct2 avg,
                                      classes_differentes = length class_counts\<rparr>))))
         else Inr Aucun_objet)"

section \<open>Sample inputs\<close>

text \<open>A detector that reports one car at confidence 0.3 whatever the threshold.\<close>

definition car_box :: box where
  "car_box = \<lparr>cls = 1, conf = 0.3, xyxy = [[10, 20, 110, 220]]\<rparr>"

definition vehicle_names :: "int \<Rightarrow> string option" where
  "vehicle_names = [0 \<mapsto> ''Bus'', 1 \<mapsto> ''Car'', 2 \<mapsto> ''Motorcycle'']"

definition stub_yolo :: "nat list yolo" where
  "stub_yolo image_np confv = Inr [\<lparr>boxes = [car_box], names = vehicle_names\<rparr>]"

definition stub_env :: "(nat list, nat list) env" where
  "stub_env = \<lparr>path_exists = (\<lambda>p. False),
               YOLO = (\<lambda>p. Inr stub_yolo),
               float_str = (\<lambda>s. if s = ''0.5'' then Inr 0.5
                                  else if s = ''1.5'' then Inr 1.5
                                  else Inl (ValueError (''could not convert string to float: '' @ [CHR 0x27] @ s @ [CHR 0x27]))),
               Image_open = (\<lambda>bs. if bs = [] then Inl (LibraryError ''cannot identify image file'') else Inr bs),
               np_array = (\<lambda>im. Inr im)\<rparr>"

definition req_plain :: request where
  "req_plain = \<lparr>files = [''file'' \<mapsto> [255, 216, 255]], form = Map.empty\<rparr>"

definition bus_box :: box where
  "bus_box = \<lparr>cls = 0, conf = 0.9, xyxy = [[5, 6, 70, 80]]\<rparr>"

text \<open>A detector that keeps the boxes at or above the threshold it is given.\<close>

definition filtering_yolo :: "nat list yolo" where
  "filtering_yolo image_np confv =
     Inr [\<lparr>boxes = filter (\<lambda>b. confv \<le> conf b) [car_box, bus_box], names = vehicle_names\<rparr>]"

text \<open>A detector that refuses a threshold outside \<open>[0, 1]\<close>, the range it documents.\<close>

definition validating_yolo :: "nat list yolo" where
  "validating_yolo image_np confv =
     (if 0 \<le> confv \<and> confv \<le> 1 then
        Inr [\<lparr>boxes = filter (\<lambda>b. confv \<le> conf b) [car_box, bus_box], names = vehicle_names\<rparr>]
      else Inl (ValueError ''conf must be between 0.0 and 1.0''))"

text \<open>A box of class 7, which \<open>vehicle_names\<close> does not name.\<close>

definition unnamed_box :: box where
  "unnamed_box = \<lparr>cls = 7, conf = 0.8, xyxy = [[1, 2, 30, 40]]\<rparr>"

definition unnamed_yolo :: "nat list yolo" where
  "unnamed_yolo image_np confv = Inr [\<lparr>boxes = [unnamed_box], names = vehicle_names\<rparr>]"


definition raising_yolo :: "nat list yolo" where
  "raising_yolo image_np confv = Inl (LibraryError ''CUDA out of memory'')"

definition req_nofile :: request where
  "req_nofile = \<lparr>files = Map.empty, form = Map.empty\<rparr>"

definition req_conf_high :: request where
  "req_conf_high = \<lparr>files = [''file'' \<mapsto> [255, 216, 255]], form = [''conf'' \<mapsto> ''1.5'']\<rparr>"

definition req_conf_text :: request where
  "req_conf_text = \<lparr>files = [''file'' \<mapsto> [255, 216, 255]], form = [''conf'' \<mapsto> ''high'']\<rparr>"

section \<open>What a response is read for\<close>






text \<open>The response the handler of \<^verbatim>\<open>predict\<close> builds from an exception.\<close>

definition fault_response :: "exn \<Rightarrow> response" where
  "fault_response ex = (JObj [(''error'', JStr (str_exn ex))], 500)"

text \<open>The detection records of a response body.\<close>

definition response_detections :: "json \<Rightarrow> json list" where
  "response_detections body = (case json_get body ''detections'' of Some (JArr ds) \<Rightarrow> ds | _ \<Rightarrow> [])"












section \<open>Properties of app.py\<close>

lemma predict_try_ok_shape:
  assumes "predict_try e mv req = (calls, Inr (body, 200))"
  shows "\<exists>ds. body = JObj [(''detections'', JArr ds),
                            (''count'', JInt (int (length ds))),
                            (''model'', JStr ''Vehicle Detection Model'')]"
  using assms
  by (auto simp: predict_try_def split: model_var.splits option.splits sum.splits)

lemma predict_ok_shape:
  assumes "snd (predict e mv req) = (body, 200)"
  shows "\<exists>ds. body = JObj [(''detections'', JArr ds),
                            (''count'', JInt (int (length ds))),
                            (''model'', JStr ''Vehicle Detection Model'')]"
proof (cases "predict_try e mv req")
  case (Pair calls r)
  show ?thesis
  proof (cases r)
    case (Inl ex)
    with Pair assms show ?thesis by (simp add: predict_def)
  next
    case (Inr resp)
    with Pair assms have "predict_try e mv req = (calls, Inr (body, 200))"
      by (simp add: predict_def)
    then show ?thesis by (rule predict_try_ok_shape)
  qed
qed

lemma stub_predict_plain:
  "snd (predict stub_env (Bound (Some stub_yolo)) req_plain) =
     (JObj [(''detections'',
              JArr [JObj [(''class_id'', JInt 1),
                          (''class_name'', JStr ''Car''),
                          (''confidence'', JFloat 0.3),
                          (''bbox'', JObj [(''x_min'', JFloat 10),
                                           (''y_min'', JFloat 20),
                                           (''x_max'', JFloat 110),
                                           (''y_max'', JFloat 220)])]]),
            (''count'', JInt 1),
            (''model'', JStr ''Vehicle Detection Model'')], 200)"
  by (simp add: predict_def predict_try_def form_conf_def stub_env_def req_plain_def
      stub_yolo_def car_box_def vehicle_names_def box_dict_def dict_get_def
      xyxy0_tolist_def py_index_def py_int_def)

text \<open>
  C1. In every successful response of POST /predict (status 200) the field
  \<^verbatim>\<open>count\<close> is the length of the list under \<^verbatim>\<open>detections\<close> of the same response.
\<close>

theorem count_is_length_of_detections:
  assumes "snd (predict e mv req) = (body, 200)"
  shows "\<exists>ds. json_get body ''detections'' = Some (JArr ds) \<and>
              json_get body ''count'' = Some (JInt (int (length ds)))"
proof -
  from predict_ok_shape [OF assms] obtain ds where
    "body = JObj [(''detections'', JArr ds),
                  (''count'', JInt (int (length ds))),
                  (''model'', JStr ''Vehicle Detection Model'')]"
    by blast
  then show ?thesis by simp
qed

theorem count_is_length_of_detections_witness:
  "\<exists>body. snd (predict stub_env (Bound (Some stub_yolo)) req_plain) = (body, 200) \<and>
     (\<exists>ds. json_get body ''detections'' = Some (JArr ds) \<and>
           json_get body ''count'' = Some (JInt (int (length ds))))"
  using count_is_length_of_detections [OF stub_predict_plain] stub_predict_plain
  by blast

















text \<open>
  C4. The claim: every request without a \<^verbatim>\<open>file\<close> field is answered with status 400.
  The handler tests the model first: with no model loaded the same request is answered
  with status 500.
\<close>

theorem no_file_model_absent_counterexample:
  "files req_nofile ''file'' = None \<and>
   snd (predict stub_env (Bound None) req_nofile) =
     (JObj [(''error'', JStr ''Model not loaded'')], 500)"
  by (simp add: predict_def predict_try_def req_nofile_def)

text \<open>
  C4, as amended. When the model is loaded, a request without a \<^verbatim>\<open>file\<close> field is
  answered with status 400 and the body \<^verbatim>\<open>{error: "No file provided"}\<close>, and the detector
  is not called.
\<close>

theorem no_file_is_400:
  assumes "files req ''file'' = None"
  shows "predict e (Bound (Some m)) req = ([], (JObj [(''error'', JStr ''No file provided'')], 400))"
  using assms by (simp add: predict_def predict_try_def)

theorem no_file_is_400_witness:
  "files req_nofile ''file'' = None \<and>
   predict stub_env (Bound (Some stub_yolo)) req_nofile =
     ([], (JObj [(''error'', JStr ''No file provided'')], 400))"
proof -
  have "files req_nofile ''file'' = None" by (simp add: req_nofile_def)
  with no_file_is_400 [OF this] show ?thesis by blast
qed

text \<open>
  C5. When the weights file is absent, \<^verbatim>\<open>load_model\<close> sets the handle to \<^verbatim>\<open>None\<close>
  without raising, \<^verbatim>\<open>/health\<close> answers \<^verbatim>\<open>model_loaded: false\<close>, and every
  \<^verbatim>\<open>/predict\<close> request is answered with status 500 and \<^verbatim>\<open>{error: "Model not loaded"}\<close>.
\<close>

theorem absent_weights_reported:
  assumes "\<not> path_exists e MODEL_PATH"
  shows "load_model e mv = (None, Bound None) \<and>
         health (snd (load_model e mv)) =
           Inr (JObj [(''status'', JStr ''ok''),
                      (''model_loaded'', JBool False),
                      (''model_path'', JStr ''best.pt'')], 200) \<and>
         (\<forall>req. predict e (snd (load_model e mv)) req =
                  ([], (JObj [(''error'', JStr ''Model not loaded'')], 500)))"
  using assms by (simp add: load_model_def health_def predict_def predict_try_def MODEL_PATH_def)

theorem absent_weights_reported_witness:
  "\<not> path_exists stub_env MODEL_PATH \<and>
   load_model stub_env Unbound = (None, Bound None) \<and>
   health (snd (load_model stub_env Unbound)) =
     Inr (JObj [(''status'', JStr ''ok''),
                (''model_loaded'', JBool False),
                (''model_path'', JStr ''best.pt'')], 200) \<and>
   predict stub_env (snd (load_model stub_env Unbound)) req_plain =
     ([], (JObj [(''error'', JStr ''Model not loaded'')], 500))"
proof -
  have "\<not> path_exists stub_env MODEL_PATH" by (simp add: stub_env_def)
  with absent_weights_reported [OF this, of Unbound] show ?thesis by blast
qed

text \<open>
  C6. When the request has no \<^verbatim>\<open>conf\<close> form field (model loaded, file given, image
  decoded), the threshold is the default 0.5: the one call of the detector is on the
  decoded image with threshold 0.5, and the response is built from what the detector
  returns or raises at that threshold.
\<close>

theorem default_threshold_is_half:
  assumes omitted: "form req ''conf'' = None"
    and loaded: "mv = Bound (Some m)"
    and bytes: "files req ''file'' = Some image_bytes"
    and opened: "Image_open e image_bytes = Inr img"
    and arr: "np_array e img = Inr image_np"
  shows "form_conf e req = Inr 0.5 \<and>
         predict e mv req =
           ([(image_np, 0.5)],
            (case m image_np 0.5 of
               Inl ex \<Rightarrow> fault_response ex
             | Inr results \<Rightarrow>
                 (case results_loop results [] of
                    Inl ex \<Rightarrow> fault_response ex
                  | Inr detections \<Rightarrow>
                      (JObj [(''detections'', JArr detections),
                             (''count'', JInt (int (length detections))),
                             (''model'', JStr ''Vehicle Detection Model'')], 200))))"
  using assms
  by (simp add: form_conf_def predict_def predict_try_def fault_response_def split: sum.splits)

theorem default_threshold_is_half_witness:
  "form req_plain ''conf'' = None \<and>
   files req_plain ''file'' = Some [255, 216, 255] \<and>
   filtering_yolo [255, 216, 255] 0.5 = Inr [\<lparr>boxes = [bus_box], names = vehicle_names\<rparr>] \<and>
   filtering_yolo [255, 216, 255] 0 =
     Inr [\<lparr>boxes = [car_box, bus_box], names = vehicle_names\<rparr>] \<and>
   predict stub_env (Bound (Some filtering_yolo)) req_plain =
     ([([255, 216, 255], 0.5)],
      (JObj [(''detections'',
               JArr [JObj [(''class_id'', JInt 0),
                           (''class_name'', JStr ''Bus''),
                           (''confidence'', JFloat 0.9),
                           (''bbox'', JObj [(''x_min'', JFloat 5),
                                            (''y_min'', JFloat 6),
                                            (''x_max'', JFloat 70),
                                            (''y_max'', JFloat 80)])]]),
             (''count'', JInt 1),
             (''model'', JStr ''Vehicle Detection Model'')], 200))"
proof -
  have omitted: "form req_plain ''conf'' = None"
    and bytes: "files req_plain ''file'' = Some [255, 216, 255]"
    by (simp_all add: req_plain_def)
  have opened: "Image_open stub_env [255, 216, 255] = Inr [255, 216, 255]"
    and arr: "np_array stub_env [255, 216, 255] = Inr [255, 216, 255]"
    by (simp_all add: stub_env_def)
  have run: "filtering_yolo [255, 216, 255] 0.5 = Inr [\<lparr>boxes = [bus_box], names = vehicle_names\<rparr>]"
    and run0: "filtering_yolo [255, 216, 255] 0 =
      Inr [\<lparr>boxes = [car_box, bus_box], names = vehicle_names\<rparr>]"
    by (simp_all add: filtering_yolo_def car_box_def bus_box_def)
  have loop: "results_loop [\<lparr>boxes = [bus_box], names = vehicle_names\<rparr>] [] =
      Inr [JObj [(''class_id'', JInt 0), (''class_name'', JStr ''Bus''),
                 (''confidence'', JFloat 0.9),
                 (''bbox'', JObj [(''x_min'', JFloat 5), (''y_min'', JFloat 6),
                                  (''x_max'', JFloat 70), (''y_max'', JFloat 80)])]]"
    by (simp add: bus_box_def vehicle_names_def box_dict_def dict_get_def xyxy0_tolist_def
        py_index_def py_int_def)
  from default_threshold_is_half [OF omitted refl bytes opened arr, of filtering_yolo]
  have "predict stub_env (Bound (Some filtering_yolo)) req_plain =
     ([([255, 216, 255], 0.5)],
      (JObj [(''detections'',
               JArr [JObj [(''class_id'', JInt 0),
                           (''class_name'', JStr ''Bus''),
                           (''confidence'', JFloat 0.9),
                           (''bbox'', JObj [(''x_min'', JFloat 5),
                                            (''y_min'', JFloat 6),
                                            (''x_max'', JFloat 70),
                                            (''y_max'', JFloat 80)])]]),
             (''count'', JInt 1),
             (''model'', JStr ''Vehicle Detection Model'')], 200))"
    unfolding run by (simp del: results_loop.simps add: loop)
  with omitted bytes run run0 show ?thesis by blast
qed

text \<open>
  C7. With the model loaded and a file given, an exception raised by any later step
  (parsing \<^verbatim>\<open>conf\<close>, opening the image, converting it, the detector, reading its boxes)
  is caught: the handler returns status 500 with the body \<^verbatim>\<open>{error: str(e)}\<close>.
\<close>

theorem faults_become_500:
  assumes loaded: "mv = Bound (Some m)" and has_file: "files req ''file'' = Some image_bytes"
  shows "(form_conf e req = Inl ex \<longrightarrow> predict e mv req = ([], fault_response ex)) \<and>
         (form_conf e req = Inr thr \<and> Image_open e image_bytes = Inl ex \<longrightarrow>
            predict e mv req = ([], fault_response ex)) \<and>
         (form_conf e req = Inr thr \<and> Image_open e image_bytes = Inr img \<and>
          np_array e img = Inl ex \<longrightarrow>
            predict e mv req = ([], fault_response ex)) \<and>
         (form_conf e req = Inr thr \<and> Image_open e image_bytes = Inr img \<and>
          np_array e img = Inr image_np \<and> m image_np thr = Inl ex \<longrightarrow>
            predict e mv req = ([(image_np, thr)], fault_response ex)) \<and>
         (form_conf e req = Inr thr \<and> Image_open e image_bytes = Inr img \<and>
          np_array e img = Inr image_np \<and> m image_np thr = Inr results \<and>
          results_loop results [] = Inl ex \<longrightarrow>
            predict e mv req = ([(image_np, thr)], fault_response ex)) \<and>
         (predict_try e mv req = (calls, Inl ex) \<longrightarrow> predict e mv req = (calls, fault_response ex))"
  using assms by (simp add: predict_def predict_try_def fault_response_def)

theorem faults_become_500_witness:
  "files req_plain ''file'' = Some [255, 216, 255] \<and>
   raising_yolo [255, 216, 255] 0.5 = Inl (LibraryError ''CUDA out of memory'') \<and>
   predict stub_env (Bound (Some raising_yolo)) req_plain =
     ([([255, 216, 255], 0.5)], (JObj [(''error'', JStr ''CUDA out of memory'')], 500))"
proof -
  have has_file: "files req_plain ''file'' = Some [255, 216, 255]" by (simp add: req_plain_def)
  have "form_conf stub_env req_plain = Inr 0.5" by (simp add: form_conf_def req_plain_def)
  moreover have "Image_open stub_env [255, 216, 255] = Inr [255, 216, 255]"
    by (simp add: stub_env_def)
  moreover have "np_array stub_env [255, 216, 255] = Inr [255, 216, 255]"
    by (simp add: stub_env_def)
  moreover have r: "raising_yolo [255, 216, 255] 0.5 = Inl (LibraryError ''CUDA out of memory'')"
    by (simp add: raising_yolo_def)
  ultimately have "predict stub_env (Bound (Some raising_yolo)) req_plain =
      ([([255, 216, 255], 0.5)], fault_response (LibraryError ''CUDA out of memory''))"
    using faults_become_500 [OF refl has_file, where e = stub_env and m = raising_yolo
        and thr = "0.5" and img = "[255, 216, 255]" and image_np = "[255, 216, 255]"
        and ex = "LibraryError ''CUDA out of memory''"]
    by blast
  with has_file r show ?thesis by (simp add: fault_response_def)
qed

text \<open>
  C10. The claim: only a value of \<^verbatim>\<open>conf\<close> that is not a float causes an error response.
  The handler hands every float to the detector, and an exception of the detector is
  answered with status 500 like any other: with a detector that refuses a threshold
  outside the range \<open>[0, 1]\<close> it documents, the float 1.5 is answered with an error.
\<close>

theorem float_conf_rejected_by_detector_counterexample:
  "form req_conf_high ''conf'' = Some ''1.5'' \<and>
   float_str stub_env ''1.5'' = Inr 1.5 \<and>
   predict stub_env (Bound (Some validating_yolo)) req_conf_high =
     ([([255, 216, 255], 1.5)],
      (JObj [(''error'', JStr ''conf must be between 0.0 and 1.0'')], 500))"
  by (simp add: predict_def predict_try_def form_conf_def req_conf_high_def stub_env_def
      validating_yolo_def)

text \<open>
  C10, as amended. The handler does not range-check \<^verbatim>\<open>conf\<close>: whatever float it parses
  to, inside \<open>[0, 1]\<close> or not, is the threshold the detector is applied with on the decoded
  image, and the response is built from what the detector returns or raises there; a
  value that does not parse is answered with status 500 (not 400) and the parser's
  message, and the detector is not called.
\<close>

theorem conf_is_not_range_checked:
  assumes loaded: "mv = Bound (Some m)"
    and bytes: "files req ''file'' = Some image_bytes"
    and given: "form req ''conf'' = Some s"
  shows "(float_str e s = Inr v \<and> Image_open e image_bytes = Inr img \<and>
          np_array e img = Inr image_np \<longrightarrow>
            predict e mv req =
              ([(image_np, v)],
               (case m image_np v of
                  Inl ex \<Rightarrow> fault_response ex
                | Inr results \<Rightarrow>
                    (case results_loop results [] of
                       Inl ex \<Rightarrow> fault_response ex
                     | Inr detections \<Rightarrow>
                         (JObj [(''detections'', JArr detections),
                                (''count'', JInt (int (length detections))),
                                (''model'', JStr ''Vehicle Detection Model'')], 200))))) \<and>
         (float_str e s = Inl ex \<longrightarrow> predict e mv req = ([], fault_response ex))"
  using assms
  by (simp add: predict_def predict_try_def form_conf_def fault_response_def split: sum.splits)

theorem conf_is_not_range_checked_witness:
  "files req_conf_high ''file'' = Some [255, 216, 255] \<and>
   form req_conf_high ''conf'' = Some ''1.5'' \<and>
   float_str stub_env ''1.5'' = Inr 1.5 \<and>
   filtering_yolo [255, 216, 255] 1.5 = Inr [\<lparr>boxes = [], names = vehicle_names\<rparr>] \<and>
   predict stub_env (Bound (Some filtering_yolo)) req_conf_high =
     ([([255, 216, 255], 1.5)],
      (JObj [(''detections'', JArr []),
             (''count'', JInt 0),
             (''model'', JStr ''Vehicle Detection Model'')], 200)) \<and>
   form req_conf_text ''conf'' = Some ''high'' \<and>
   predict stub_env (Bound (Some filtering_yolo)) req_conf_text =
     ([], (JObj [(''error'',
                  JStr (''could not convert string to float: '' @ [CHR 0x27] @ ''high'' @ [CHR 0x27]))],
           500))"
proof -
  have f1: "files req_conf_high ''file'' = Some [255, 216, 255]"
    and c1: "form req_conf_high ''conf'' = Some ''1.5''"
    by (simp_all add: req_conf_high_def)
  have f2: "files req_conf_text ''file'' = Some [255, 216, 255]"
    and c2: "form req_conf_text ''conf'' = Some ''high''"
    by (simp_all add: req_conf_text_def)
  have p1: "float_str stub_env ''1.5'' = Inr 1.5"
    and p2: "float_str stub_env ''high'' =
      Inl (ValueError (''could not convert string to float: '' @ [CHR 0x27] @ ''high'' @ [CHR 0x27]))"
    and opened: "Image_open stub_env [255, 216, 255] = Inr [255, 216, 255]"
    and arr: "np_array stub_env [255, 216, 255] = Inr [255, 216, 255]"
    by (simp_all add: stub_env_def)
  have run: "filtering_yolo [255, 216, 255] 1.5 = Inr [\<lparr>boxes = [], names = vehicle_names\<rparr>]"
    by (simp add: filtering_yolo_def car_box_def bus_box_def)
  note high = conf_is_not_range_checked [OF refl f1 c1, where e = stub_env and m = filtering_yolo
      and v = "1.5" and img = "[255, 216, 255]" and image_np = "[255, 216, 255]"]
  note unparsed = conf_is_not_range_checked [OF refl f2 c2, where e = stub_env
      and m = filtering_yolo
      and ex = "ValueError (''could not convert string to float: '' @ [CHR 0x27] @ ''high'' @ [CHR 0x27])"]
  from high p1 opened arr
  have "predict stub_env (Bound (Some filtering_yolo)) req_conf_high =
     ([([255, 216, 255], 1.5)],
      (JObj [(''detections'', JArr []),
             (''count'', JInt 0),
             (''model'', JStr ''Vehicle Detection Model'')], 200))"
    unfolding run by simp
  moreover from unparsed p2
  have "predict stub_env (Bound (Some filtering_yolo)) req_conf_text =
     ([], (JObj [(''error'',
                  JStr (''could not convert string to float: '' @ [CHR 0x27] @ ''high'' @ [CHR 0x27]))],
           500))"
    by (simp add: fault_response_def)
  ultimately show ?thesis using f1 c1 c2 p1 run by blast
qed

section \<open>Properties of both front-ends and of app_streamlit.py\<close>

lemma str_nat_numeral:
  "str_nat (numeral k) =
     (if (numeral k :: nat) < 10 then [digit_char (numeral k)]
      else str_nat (numeral k div 10) @ [digit_char (numeral k mod 10)])"
  by (rule str_nat.simps)

lemma str_nat_0: "str_nat 0 = ''0''"
  by (simp add: str_nat.simps [of 0] digit_char_def)

lemma str_nat_1: "str_nat (Suc 0) = ''1''"
  by (simp add: str_nat.simps [of "Suc 0"] digit_char_def)

lemmas str_nat_eval = str_nat_numeral str_nat_0 str_nat_1 digit_char_def

lemma unnamed_box_row:
  "box_row vehicle_names unnamed_box =
     Inr \<lparr>Classe = ''Classe 7'', Confiance = ''80.00%'',
          X_min = ''1'', Y_min = ''2'', X_max = ''30'', Y_max = ''40''\<rparr>"
  by (simp add: box_row_def unnamed_box_def vehicle_names_def dict_get_def xyxy0_tolist_def
      py_index_def py_int_def str_int_def fmt_pct2_def fmt_0f_def sign_str_def two_digits_def
      round_half_even_def Let_def str_nat_eval)

lemma unnamed_predict:
  "snd (predict stub_env (Bound (Some unnamed_yolo)) req_plain) =
     (JObj [(''detections'',
              JArr [JObj [(''class_id'', JInt 7),
                          (''class_name'', JStr ''Class 7''),
                          (''confidence'', JFloat 0.8),
                          (''bbox'', JObj [(''x_min'', JFloat 1),
                                           (''y_min'', JFloat 2),
                                           (''x_max'', JFloat 30),
                                           (''y_max'', JFloat 40)])]]),
            (''count'', JInt 1),
            (''model'', JStr ''Vehicle Detection Model'')], 200)"
  by (simp add: predict_def predict_try_def form_conf_def stub_env_def req_plain_def
      unnamed_yolo_def unnamed_box_def vehicle_names_def box_dict_def dict_get_def
      xyxy0_tolist_def py_index_def py_int_def str_int_def str_nat_eval)

lemma unnamed_render:
  "render_result \<lparr>boxes = [unnamed_box], names = vehicle_names\<rparr> =
     Inr (Detections
            [\<lparr>Classe = ''Classe 7'', Confiance = ''80.00%'',
              X_min = ''1'', Y_min = ''2'', X_max = ''30'', Y_max = ''40''\<rparr>]
            [(''Classe 7'', 1)]
            \<lparr>total_detections = 1, avg_conf = 0.8, confiance_moyenne = ''80.00%'',
             classes_differentes = 1\<rparr>)"
  by (simp add: render_result_def unnamed_box_row value_counts_def strip_char_def
      float_decimal_def digit_val_def Let_def fmt_pct2_def sign_str_def two_digits_def
      round_half_even_def str_nat_eval)

lemma digit_cases:
  "d < 10 \<Longrightarrow> d = 0 \<or> d = 1 \<or> d = 2 \<or> d = 3 \<or> d = 4 \<or> d = 5 \<or> d = 6 \<or> d = 7 \<or> d = 8 \<or> d = (9::nat)"
  by arith


lemma digit_char_plain:
  "d < 10 \<Longrightarrow> digit_char d \<noteq> CHR ''.'' \<and> digit_char d \<noteq> CHR ''%'' \<and> digit_char d \<noteq> CHR ''-''"
  by (drule digit_cases) (auto simp: digit_char_def)







lemma two_digits_plain:
  "c \<in> set (two_digits b) \<Longrightarrow> c \<noteq> CHR ''.'' \<and> c \<noteq> CHR ''%'' \<and> c \<noteq> CHR ''-''"
proof -
  assume "c \<in> set (two_digits b)"
  then have "c = digit_char (b div 10 mod 10) \<or> c = digit_char (b mod 10)"
    by (auto simp: two_digits_def)
  moreover have "b div 10 mod 10 < 10" "b mod 10 < 10" by simp_all
  ultimately show ?thesis
    using digit_char_plain [of "b div 10 mod 10"] digit_char_plain [of "b mod 10"] by auto
qed




















text \<open>
  C9. A box whose class id the model's \<^verbatim>\<open>names\<close> does not hold still gives a record in
  both front-ends: the API's dictionary has \<^verbatim>\<open>class_name\<close> \<^verbatim>\<open>"Class {cls}"\<close> and the form's
  row has \<^verbatim>\<open>Classe\<close> \<^verbatim>\<open>"Classe {cls}"\<close>, with the id printed in decimal.
\<close>

theorem unnamed_class_gets_fallback_name:
  assumes absent: "nm (py_int (cls b)) = None"
    and coords: "xyxy b = (x0 # y0 # x1 # y1 # rest) # others"
  shows "box_dict nm b =
           Inr (JObj [(''class_id'', JInt (py_int (cls b))),
                      (''class_name'', JStr (''Class '' @ str_int (py_int (cls b)))),
                      (''confidence'', JFloat (conf b)),
                      (''bbox'', JObj [(''x_min'', JFloat x0),
                                       (''y_min'', JFloat y0),
                                       (''x_max'', JFloat x1),
                                       (''y_max'', JFloat y1)])]) \<and>
         box_row nm b =
           Inr \<lparr>Classe = ''Classe '' @ str_int (py_int (cls b)),
                Confiance = fmt_pct2 (conf b),
                X_min = fmt_0f x0,
                Y_min = fmt_0f y0,
                X_max = fmt_0f x1,
                Y_max = fmt_0f y1\<rparr>"
  using assms
  by (simp add: box_dict_def box_row_def dict_get_def xyxy0_tolist_def py_index_def Let_def)

theorem unnamed_class_gets_fallback_name_witness:
  "vehicle_names (py_int (cls unnamed_box)) = None \<and>
   xyxy unnamed_box = [[1, 2, 30, 40]] \<and>
   box_dict vehicle_names unnamed_box =
     Inr (JObj [(''class_id'', JInt 7),
                (''class_name'', JStr ''Class 7''),
                (''confidence'', JFloat 0.8),
                (''bbox'', JObj [(''x_min'', JFloat 1),
                                 (''y_min'', JFloat 2),
                                 (''x_max'', JFloat 30),
                                 (''y_max'', JFloat 40)])]) \<and>
   box_row vehicle_names unnamed_box =
     Inr \<lparr>Classe = ''Classe 7'', Confiance = ''80.00%'',
          X_min = ''1'', Y_min = ''2'', X_max = ''30'', Y_max = ''40''\<rparr> \<and>
   map (\<lambda>d. json_get d ''class_name'')
     (response_detections (fst (snd (predict stub_env (Bound (Some unnamed_yolo)) req_plain)))) =
     [Some (JStr ''Class 7'')] \<and>
   render_result \<lparr>boxes = [unnamed_box], names = vehicle_names\<rparr> =
     Inr (Detections
            [\<lparr>Classe = ''Classe 7'', Confiance = ''80.00%'',
              X_min = ''1'', Y_min = ''2'', X_max = ''30'', Y_max = ''40''\<rparr>]
            [(''Classe 7'', 1)]
            \<lparr>total_detections = 1, avg_conf = 0.8, confiance_moyenne = ''80.00%'',
             classes_differentes = 1\<rparr>)"
proof -
  have absent: "vehicle_names (py_int (cls unnamed_box)) = None"
    by (simp add: vehicle_names_def unnamed_box_def py_int_def)
  have coords: "xyxy unnamed_box = (1 # 2 # 30 # 40 # []) # []"
    by (simp add: unnamed_box_def)
  have c: "py_int (cls unnamed_box) = 7" and f: "conf unnamed_box = 0.8"
    by (simp_all add: unnamed_box_def py_int_def)
  have seven: "str_int 7 = ''7''"
    by (simp add: str_int_def str_nat_eval)
  from unnamed_class_gets_fallback_name [where nm = vehicle_names and b = unnamed_box, OF absent coords]
  have "box_dict vehicle_names unnamed_box =
     Inr (JObj [(''class_id'', JInt 7),
                (''class_name'', JStr ''Class 7''),
                (''confidence'', JFloat 0.8),
                (''bbox'', JObj [(''x_min'', JFloat 1),
                                 (''y_min'', JFloat 2),
                                 (''x_max'', JFloat 30),
                                 (''y_max'', JFloat 40)])])"
    unfolding c f seven by simp
  moreover have "map (\<lambda>d. json_get d ''class_name'')
     (response_detections (fst (snd (predict stub_env (Bound (Some unnamed_yolo)) req_plain)))) =
     [Some (JStr ''Class 7'')]"
    by (simp add: unnamed_predict response_detections_def)
  ultimately show ?thesis
    using absent coords unnamed_box_row unnamed_render by simp
qed

end
